theory Spec2Isabelle
  imports Main "HOL-Library.Product_Lexorder" "HOL-Library.Monad_Syntax" "HOL-Library.Sublist"
begin

section \<open>Column names: \<open>to_snake_case\<close>\<close>

text \<open>
  The notebook's strings are Python \<open>str\<close> values. The character classes below are the
  ones the three calls of \<open>to_snake_case\<close> use on ASCII text: the bracket ranges
  \<open>[a-z0-9]\<close> and \<open>[A-Z]\<close> of the first pattern, the class \<open>\W\<close> of the second
  (everything but letters, digits and the underscore) and \<open>str.lower\<close>. Outside ASCII
  Python's \<open>\W\<close> and \<open>lower\<close> follow Unicode, which is not modelled, so statements about
  \<open>to_snake_case\<close> are made for ASCII input.
\<close>

definition is_lower :: "char \<Rightarrow> bool" where
  "is_lower c = (97 \<le> (of_char c :: nat) \<and> (of_char c :: nat) \<le> 122)"

definition is_upper :: "char \<Rightarrow> bool" where
  "is_upper c = (65 \<le> (of_char c :: nat) \<and> (of_char c :: nat) \<le> 90)"

definition is_digit :: "char \<Rightarrow> bool" where
  "is_digit c = (48 \<le> (of_char c :: nat) \<and> (of_char c :: nat) \<le> 57)"

definition is_word :: "char \<Rightarrow> bool" where
  \<comment> \<open>the complement of \<open>\W\<close>: \<open>[a-zA-Z0-9_]\<close>\<close>
  "is_word c = (is_lower c \<or> is_upper c \<or> is_digit c \<or> c = CHR ''_'')"

definition printable_ascii :: "char \<Rightarrow> bool" where
  "printable_ascii c = (32 \<le> (of_char c :: nat) \<and> (of_char c :: nat) \<le> 126)"

definition lower_char :: "char \<Rightarrow> char" where
  "lower_char c = (if is_upper c then char_of ((of_char c :: nat) + 32) else c)"

definition lower :: "string \<Rightarrow> string" where
  "lower s = map lower_char s"

text \<open>
  \<open>re.sub(r'([a-z0-9])([A-Z])', r'\1_\2', name)\<close>: the scan goes left to right; where a
  lowercase letter or digit is followed by an uppercase letter the two are emitted with an
  underscore between them and the scan continues after the pair, otherwise one character
  is emitted.
\<close>

fun camel_sub :: "string \<Rightarrow> string" where
  "camel_sub (a # b # cs) =
     (if (is_lower a \<or> is_digit a) \<and> is_upper b
      then a # CHR ''_'' # b # camel_sub cs
      else a # camel_sub (b # cs))"
| "camel_sub cs = cs"

text \<open>
  \<open>re.sub(r'\W+', '_', name)\<close>: every maximal run of characters matching \<open>\W\<close> is
  replaced by one underscore; word characters, the underscore among them, are kept.
\<close>

function nonword_sub :: "string \<Rightarrow> string" where
  "nonword_sub [] = []"
| "nonword_sub (c # cs) =
     (if is_word c then c # nonword_sub cs
      else CHR ''_'' # nonword_sub (dropWhile (\<lambda>x. \<not> is_word x) cs))"
  by pat_completeness auto
termination
  by (relation "measure length") (auto simp: less_Suc_eq_le length_dropWhile_le)

text \<open>\<open>name.strip('_')\<close>: underscores are removed from both ends.\<close>

definition strip_underscores :: "string \<Rightarrow> string" where
  "strip_underscores s =
     rev (dropWhile (\<lambda>x. x = CHR ''_'') (rev (dropWhile (\<lambda>x. x = CHR ''_'') s)))"

definition to_snake_case :: "string \<Rightarrow> string" where
  "to_snake_case name = lower (strip_underscores (nonword_sub (camel_sub name)))"

text \<open>The characters of a canonical column name.\<close>

definition canonical_char :: "char \<Rightarrow> bool" where
  "canonical_char c = (is_lower c \<or> is_digit c \<or> c = CHR ''_'')"

section \<open>Timestamps\<close>

text \<open>
  Exceptions are values. \<open>External\<close> stands for whatever a collaborator raises
  (\<open>requests\<close>, \<open>pandas\<close>, the file system), named by its class.
\<close>

datatype error = TypeError | ValueError | KeyError | External string

text \<open>
  A \<open>datetime.datetime\<close> without time zone; the format of the notebook has no fraction,
  so microseconds are always zero and left out. Python orders datetimes field by field,
  year first.
\<close>

record datetime =
  year :: nat
  month :: nat
  day :: nat
  hour :: nat
  minute :: nat
  second :: nat

definition dt_tuple :: "datetime \<Rightarrow> nat \<times> nat \<times> nat \<times> nat \<times> nat \<times> nat" where
  "dt_tuple t = (year t, month t, day t, hour t, minute t, second t)"

definition datetime_gt :: "datetime \<Rightarrow> datetime \<Rightarrow> bool" where
  \<comment> \<open>\<open>a > b\<close> on two datetimes\<close>
  "datetime_gt a b = (dt_tuple b < dt_tuple a)"

definition digit_val :: "char \<Rightarrow> nat" where
  "digit_val c = (of_char c :: nat) - 48"

definition digits_val :: "string \<Rightarrow> nat" where
  "digits_val tok = foldl (\<lambda>n c. 10 * n + digit_val c) 0 tok"

definition number :: "nat \<Rightarrow> string \<Rightarrow> nat option" where
  \<comment> \<open>a run of one to \<open>maxlen\<close> decimal digits\<close>
  "number maxlen tok =
     (if tok \<noteq> [] \<and> length tok \<le> maxlen \<and> list_all is_digit tok
      then Some (digits_val tok) else None)"

definition split_on :: "(char \<Rightarrow> bool) \<Rightarrow> string \<Rightarrow> (string \<times> string) option" where
  \<comment> \<open>the text before and after the first separator\<close>
  "split_on sep s =
     (case dropWhile (\<lambda>c. \<not> sep c) s of
        [] \<Rightarrow> None
      | _ # rest \<Rightarrow> Some (takeWhile (\<lambda>c. \<not> sep c) s, rest))"

text \<open>
  \<open>datetime.strptime(s, '%Y-%m-%dT%H:%M:%S')\<close>. The library turns the format into the
  pattern \<open>\d\d\d\d-(1[0-2]|0[1-9]|[1-9])-(3[0-1]|[1-2]\d|0[1-9]|[1-9]| [1-9])T\<close>
  \<open>(2[0-3]|[0-1]\d|\d):([0-5]\d|\d):(6[0-1]|[0-5]\d|\d)\<close>, matched without regard to
  case, and requires the whole string to be consumed. The fields hold no separator
  character, so the string is cut at the separators and each piece is checked against the
  alternatives of its field. The \<open>datetime\<close> constructor then rejects year 0, a day
  beyond the month's length and the seconds 60 and 61. Every failure is a
  \<open>ValueError\<close>.
\<close>

definition year_field :: "string \<Rightarrow> nat option" where
  "year_field tok = (if length tok = 4 then number 4 tok else None)"

definition month_field :: "string \<Rightarrow> nat option" where
  "month_field tok =
     (case number 2 tok of
        Some n \<Rightarrow> if 1 \<le> n \<and> n \<le> 12 then Some n else None
      | None \<Rightarrow> None)"

definition day_field :: "string \<Rightarrow> nat option" where
  "day_field tok =
     (case tok of
        [s, c] \<Rightarrow>
          if s = CHR '' '' then (if is_digit c \<and> c \<noteq> CHR ''0'' then Some (digit_val c) else None)
          else (case number 2 tok of
                  Some n \<Rightarrow> if 1 \<le> n \<and> n \<le> 31 then Some n else None
                | None \<Rightarrow> None)
      | _ \<Rightarrow>
          (case number 2 tok of
             Some n \<Rightarrow> if 1 \<le> n \<and> n \<le> 31 then Some n else None
           | None \<Rightarrow> None))"

definition bounded_field :: "nat \<Rightarrow> string \<Rightarrow> nat option" where
  \<comment> \<open>hours up to 23, minutes up to 59, seconds up to 61\<close>
  "bounded_field bound tok =
     (case number 2 tok of
        Some n \<Rightarrow> if n \<le> bound then Some n else None
      | None \<Rightarrow> None)"

definition is_leap :: "nat \<Rightarrow> bool" where
  "is_leap y = (y mod 4 = 0 \<and> (y mod 100 \<noteq> 0 \<or> y mod 400 = 0))"

definition days_in_month :: "nat \<Rightarrow> nat \<Rightarrow> nat" where
  "days_in_month y m =
     (if m = 2 then (if is_leap y then 29 else 28)
      else if m = 4 \<or> m = 6 \<or> m = 9 \<or> m = 11 then 30 else 31)"

definition match_format :: "string \<Rightarrow> datetime option" where
  "match_format s = do {
     (ys, r1) \<leftarrow> split_on (\<lambda>c. c = CHR ''-'') s;
     (ms, r2) \<leftarrow> split_on (\<lambda>c. c = CHR ''-'') r1;
     (ds, r3) \<leftarrow> split_on (\<lambda>c. c = CHR ''T'' \<or> c = CHR ''t'') r2;
     (hs, r4) \<leftarrow> split_on (\<lambda>c. c = CHR '':'') r3;
     (mins, secs) \<leftarrow> split_on (\<lambda>c. c = CHR '':'') r4;
     y \<leftarrow> year_field ys;
     m \<leftarrow> month_field ms;
     d \<leftarrow> day_field ds;
     h \<leftarrow> bounded_field 23 hs;
     mi \<leftarrow> bounded_field 59 mins;
     se \<leftarrow> bounded_field 61 secs;
     Some \<lparr>year = y, month = m, day = d, hour = h, minute = mi, second = se\<rparr>
   }"

definition strptime :: "string \<Rightarrow> error + datetime" where
  "strptime s =
     (case match_format s of
        None \<Rightarrow> Inl ValueError
      | Some t \<Rightarrow>
          if 1 \<le> year t \<and> day t \<le> days_in_month (year t) (month t) \<and> second t \<le> 59
          then Inr t else Inl ValueError)"

text \<open>
  \<open>str(t)\<close> for a datetime with zero microseconds: \<open>YYYY-MM-DD HH:MM:SS\<close>, a space
  between date and time, every field zero-padded.
\<close>

definition digit_char :: "nat \<Rightarrow> char" where
  "digit_char n = char_of (48 + n)"

definition pad2 :: "nat \<Rightarrow> string" where
  "pad2 n = [digit_char (n div 10 mod 10), digit_char (n mod 10)]"

definition pad4 :: "nat \<Rightarrow> string" where
  "pad4 n = [digit_char (n div 1000 mod 10), digit_char (n div 100 mod 10),
             digit_char (n div 10 mod 10), digit_char (n mod 10)]"

definition datetime_str :: "datetime \<Rightarrow> string" where
  "datetime_str t =
     pad4 (year t) @ ''-'' @ pad2 (month t) @ ''-'' @ pad2 (day t) @ '' '' @
     pad2 (hour t) @ '':'' @ pad2 (minute t) @ '':'' @ pad2 (second t)"

text \<open>
  The text of a timestamp in the catalog listing, \<open>YYYY-MM-DDTHH:MM:SS\<close>, and the
  datetimes that Python's \<open>datetime\<close> admits with four-digit years.
\<close>

definition isoformat :: "datetime \<Rightarrow> string" where
  "isoformat t =
     pad4 (year t) @ ''-'' @ pad2 (month t) @ ''-'' @ pad2 (day t) @ ''T'' @
     pad2 (hour t) @ '':'' @ pad2 (minute t) @ '':'' @ pad2 (second t)"

definition valid_datetime :: "datetime \<Rightarrow> bool" where
  "valid_datetime t =
     (1 \<le> year t \<and> year t \<le> 9999 \<and> 1 \<le> month t \<and> month t \<le> 12 \<and>
      1 \<le> day t \<and> day t \<le> days_in_month (year t) (month t) \<and>
      hour t \<le> 23 \<and> minute t \<le> 59 \<and> second t \<le> 59)"

section \<open>Datasets, metadata and the staleness check\<close>

text \<open>
  One item of the catalog listing. The notebook indexes \<open>name\<close>, \<open>download_url\<close> and
  \<open>id\<close> directly and the catalog supplies them as strings. The entry
  \<open>last_modified\<close> of an item may be missing, may be the JSON \<open>null\<close> or is a string.
\<close>

datatype json_string = Absent | Null | Str string

record dataset =
  dataset_id :: string
  name :: string
  last_modified_json :: json_string
  download_url :: string

definition last_modified :: "dataset \<Rightarrow> string option" where
  \<comment> \<open>\<open>dataset.get('last_modified')\<close>: \<open>None\<close> for a missing key and for \<open>null\<close>\<close>
  "last_modified dataset =
     (case last_modified_json dataset of
        Str s \<Rightarrow> Some s
      | Null \<Rightarrow> None
      | Absent \<Rightarrow> None)"

text \<open>
  A value stored under a dataset id in \<open>metadata['last_run']\<close>: the datetime object that
  \<open>download_and_process\<close> puts there, or the string that \<open>json.load\<close> returns for an
  entry of the metadata file.
\<close>

datatype watermark = Stamp datetime | Text string

text \<open>
  The dictionary \<open>metadata['last_run']\<close>, in insertion order. The metadata document
  always has the shape \<open>{"last_run": {...}}\<close>, so only that dictionary is kept.
\<close>

type_synonym metadata = "(string \<times> watermark) list"

fun dict_set :: "'k \<Rightarrow> 'v \<Rightarrow> ('k \<times> 'v) list \<Rightarrow> ('k \<times> 'v) list" where
  \<comment> \<open>\<open>d[k] = v\<close>: an existing key keeps its place, a new one goes to the end\<close>
  "dict_set k v [] = [(k, v)]"
| "dict_set k v (p # ps) = (if fst p = k then (k, v) # ps else p # dict_set k v ps)"

fun greater_than :: "datetime \<Rightarrow> watermark \<Rightarrow> error + bool" where
  \<comment> \<open>\<open>t > w\<close> with a datetime on the left: a string on the right is a \<open>TypeError\<close>\<close>
  "greater_than t (Stamp w) = Inr (datetime_gt t w)"
| "greater_than t (Text s) = Inl TypeError"

definition file_modified_since_last_run :: "dataset \<Rightarrow> metadata \<Rightarrow> error + bool" where
  "file_modified_since_last_run dataset last_run =
     (case map_of last_run (dataset_id dataset) of
        Some last_download_time \<Rightarrow>
          (case last_modified dataset of
             None \<Rightarrow> Inl TypeError
           | Some dataset_last_modified \<Rightarrow>
               (case strptime dataset_last_modified of
                  Inl e \<Rightarrow> Inl e
                | Inr t \<Rightarrow> greater_than t last_download_time))
      | None \<Rightarrow> Inr True)"

section \<open>The metadata file\<close>

text \<open>
  The metadata file holds the JSON object \<open>last_run\<close>, every value a string.
  \<open>json.dump(metadata, f, default=str)\<close> writes a string as it is and a datetime through
  \<open>str\<close>; \<open>json.load\<close> returns every value as the string it finds. A missing file gives
  the empty dictionary.
\<close>

type_synonym document = "(string \<times> string) list"

fun dump_value :: "watermark \<Rightarrow> string" where
  "dump_value (Stamp t) = datetime_str t"
| "dump_value (Text s) = s"

definition json_dump :: "metadata \<Rightarrow> document" where
  "json_dump last_run = map (\<lambda>(k, v). (k, dump_value v)) last_run"

definition json_load :: "document option \<Rightarrow> metadata" where
  "json_load file =
     (case file of
        Some doc \<Rightarrow> map (\<lambda>(k, v). (k, Text v)) doc
      | None \<Rightarrow> [])"

section \<open>The theme filter\<close>

primrec starts_with :: "string \<Rightarrow> string \<Rightarrow> bool" where
  "starts_with [] s = True"
| "starts_with (c # cs) s = (case s of [] \<Rightarrow> False | d # ds \<Rightarrow> c = d \<and> starts_with cs ds)"

primrec contains :: "string \<Rightarrow> string \<Rightarrow> bool" where
  \<comment> \<open>\<open>sub in s\<close> on strings\<close>
  "contains sub [] = (sub = [])"
| "contains sub (c # cs) = (starts_with sub (c # cs) \<or> contains sub cs)"

definition THEME :: string where
  "THEME = ''Hospitals''"

definition filter_by_theme :: "string \<Rightarrow> dataset list \<Rightarrow> dataset list" where
  \<comment> \<open>\<open>[dataset for dataset in datasets if THEME.lower() in dataset['name'].lower()]\<close>\<close>
  "filter_by_theme theme datasets =
     [dataset \<leftarrow> datasets. contains (lower theme) (lower (name dataset))]"

section \<open>Tasks and the run\<close>

text \<open>
  What the notebook reaches outside itself is a parameter of the run: the answer of
  \<open>requests.get\<close> to a URL (an exception, or a status code and a body), the datasets that
  \<open>response.json()['items']\<close> gives for the catalog's body, the table that
  \<open>pd.read_csv(response.content.decode('utf-8'))\<close> gives for a body, and the exception,
  if any, with which \<open>os.makedirs\<close> and \<open>df.to_csv\<close> fail for a path. Opening and
  writing the metadata file is taken to succeed.

  The thread pool is outside the notebook too. The order in which it takes up the
  submitted tasks (\<open>pool_order\<close>) and the order in which \<open>as_completed\<close> hands their
  outcomes to \<open>main\<close> (\<open>completed_order\<close>) are parameters of the run, each a
  rearrangement of the list it is given.
\<close>

record response =
  status_code :: nat
  content :: string

record table =
  columns :: "string list"
  rows :: "string list list"

record env =
  requests_get :: "string \<Rightarrow> error + response"
  json_items :: "string \<Rightarrow> error + dataset list"
  read_csv :: "string \<Rightarrow> error + table"
  to_csv_error :: "string \<Rightarrow> error option"
  pool_order :: "dataset list \<Rightarrow> dataset list"
  completed_order :: "(error + unit) list \<Rightarrow> (error + unit) list"

datatype message =
    Skipping string
  | Downloading string
  | Saved string string
  | FailedDownload string nat
  | FailedCatalog nat
  | Complete

datatype event = Get string | Print message

text \<open>
  What a run leaves behind: the metadata file (\<open>None\<close> while it does not exist), the
  dataset files by path, and the requests sent and messages printed, in order.
\<close>

record world =
  metadata_file :: "document option"
  files :: "(string \<times> table) list"
  events :: "event list"

definition emit :: "event \<Rightarrow> world \<Rightarrow> world" where
  "emit e w = w\<lparr>events := events w @ [e]\<rparr>"

definition API_URL :: string where
  "API_URL = ''https://data.cms.gov/provider-data/api/1/metastore/schemas/dataset/items''"

definition DOWNLOAD_DIR :: string where
  "DOWNLOAD_DIR = ''./datasets''"

definition path_join :: "string \<Rightarrow> string \<Rightarrow> string" where
  \<comment> \<open>\<open>os.path.join\<close> on two components: an absolute second component stands alone\<close>
  "path_join a b =
     (if b \<noteq> [] \<and> hd b = CHR ''/'' then b
      else if a = [] \<or> last a = CHR ''/'' then a @ b
      else a @ ''/'' @ b)"

text \<open>
  A task works on the dictionary shared by all tasks of the run and on the world. An
  exception leaves both as they were when it was raised.
\<close>

type_synonym state = "metadata \<times> world"

definition update_metadata :: "dataset \<Rightarrow> state \<Rightarrow> (error + unit) \<times> state" where
  \<comment> \<open>lines 70 to 72: \<open>dataset['last_modified']\<close> is parsed (a missing key is a
      \<open>KeyError\<close>, \<open>null\<close> a \<open>TypeError\<close> of \<open>strptime\<close>), the watermark is stored,
      then the whole dictionary is dumped\<close>
  "update_metadata dataset st =
     (case st of (last_run, w) \<Rightarrow>
        (case last_modified_json dataset of
           Absent \<Rightarrow> (Inl KeyError, st)
         | Null \<Rightarrow> (Inl TypeError, st)
         | Str s \<Rightarrow>
             (case strptime s of
                Inl e \<Rightarrow> (Inl e, st)
              | Inr t \<Rightarrow>
                  (let last_run' = dict_set (dataset_id dataset) (Stamp t) last_run
                   in (Inr (), (last_run', w\<lparr>metadata_file := Some (json_dump last_run')\<rparr>))))))"

definition save_csv :: "env \<Rightarrow> dataset \<Rightarrow> response \<Rightarrow> state \<Rightarrow> (error + unit) \<times> state" where
  \<comment> \<open>lines 55 to 72, the branch of status 200\<close>
  "save_csv E dataset resp st =
     (case st of (last_run, w) \<Rightarrow>
        (let w1 = emit (Print (Downloading (name dataset))) w in
         case read_csv E (content resp) of
           Inl e \<Rightarrow> (Inl e, (last_run, w1))
         | Inr df \<Rightarrow>
             (let df' = df\<lparr>columns := map to_snake_case (columns df)\<rparr>;
                  file_path = path_join DOWNLOAD_DIR (dataset_id dataset @ ''.csv'')
              in case to_csv_error E file_path of
                   Some e \<Rightarrow> (Inl e, (last_run, w1))
                 | None \<Rightarrow>
                     (let w2 = w1\<lparr>files := dict_set file_path df' (files w1)\<rparr>;
                          w3 = emit (Print (Saved (name dataset) file_path)) w2
                      in update_metadata dataset (last_run, w3)))))"

definition download_and_process :: "env \<Rightarrow> dataset \<Rightarrow> state \<Rightarrow> (error + unit) \<times> state" where
  "download_and_process E dataset st =
     (case st of (last_run, w) \<Rightarrow>
        (case file_modified_since_last_run dataset last_run of
           Inl e \<Rightarrow> (Inl e, st)
         | Inr False \<Rightarrow> (Inr (), (last_run, emit (Print (Skipping (name dataset))) w))
         | Inr True \<Rightarrow>
             (let w1 = emit (Get (download_url dataset)) w in
              case requests_get E (download_url dataset) of
                Inl e \<Rightarrow> (Inl e, (last_run, w1))
              | Inr resp \<Rightarrow>
                  if status_code resp = 200 then save_csv E dataset resp (last_run, w1)
                  else (Inr (),
                        (last_run,
                         emit (Print (FailedDownload (name dataset) (status_code resp))) w1)))))"

text \<open>
  The pool runs every submitted task, also after one of them has raised: a worker keeps
  the exception in the task's future, and leaving the \<open>with\<close> block waits for all
  workers. \<open>run_tasks\<close> takes the tasks of a list one after the other, each as a whole;
  \<open>main\<close> gives it the list in the order of the pool. What the steps of two tasks do to
  each other when they interleave is not expressed. \<open>future.result()\<close> raises again in
  \<open>main\<close> what a task raised: with several failed tasks it is the one that
  \<open>as_completed\<close> hands over first.
\<close>

fun run_tasks :: "env \<Rightarrow> dataset list \<Rightarrow> state \<Rightarrow> (error + unit) list \<times> state" where
  "run_tasks E [] st = ([], st)"
| "run_tasks E (d # ds) st =
     (case download_and_process E d st of (r, st') \<Rightarrow>
        (case run_tasks E ds st' of (rs, st'') \<Rightarrow> (r # rs, st'')))"

fun first_error :: "(error + unit) list \<Rightarrow> error option" where
  "first_error [] = None"
| "first_error (Inl e # rs) = Some e"
| "first_error (Inr u # rs) = first_error rs"

definition main :: "env \<Rightarrow> world \<Rightarrow> (error + unit) \<times> world" where
  "main E w =
     (let last_run = json_load (metadata_file w);
          w1 = emit (Get API_URL) w
      in case requests_get E API_URL of
           Inl e \<Rightarrow> (Inl e, w1)
         | Inr resp \<Rightarrow>
             if status_code resp \<noteq> 200
             then (Inr (), emit (Print (FailedCatalog (status_code resp))) w1)
             else (case json_items E (content resp) of
                     Inl e \<Rightarrow> (Inl e, w1)
                   | Inr datasets \<Rightarrow>
                       (let hospital_datasets = filter_by_theme THEME datasets
                        in case run_tasks E (pool_order E hospital_datasets) (last_run, w1) of
                             (results, (last_run', w2)) \<Rightarrow>
                               (case first_error (completed_order E results) of
                                  Some e \<Rightarrow> (Inl e, w2)
                                | None \<Rightarrow> (Inr (), emit (Print Complete) w2)))))"

definition exit_status :: "error + unit \<Rightarrow> nat" where
  \<comment> \<open>the interpreter ends with status 1 on an uncaught exception and 0 otherwise\<close>
  "exit_status r = (case r of Inl e \<Rightarrow> 1 | Inr u \<Rightarrow> 0)"

definition download_calls :: "world \<Rightarrow> string list" where
  \<comment> \<open>the requests of a run other than the one for the catalog\<close>
  "download_calls w = [u. Get u \<leftarrow> events w, u \<noteq> API_URL]"

section \<open>Sample inputs\<close>

text \<open>The in-memory dictionary of a run that has stored only datetime objects.\<close>

definition in_memory :: "(string \<times> datetime) list \<Rightarrow> metadata" where
  "in_memory marks = map (\<lambda>(k, t). (k, Stamp t)) marks"

definition midnight :: "nat \<Rightarrow> nat \<Rightarrow> nat \<Rightarrow> datetime" where
  "midnight y m d = \<lparr>year = y, month = m, day = d, hour = 0, minute = 0, second = 0\<rparr>"

definition hospital_42 :: "string option \<Rightarrow> dataset" where
  "hospital_42 modified =
     \<lparr>dataset_id = ''42'', name = ''Hospitals - General Information'',
      last_modified_json = (case modified of Some s \<Rightarrow> Str s | None \<Rightarrow> Absent),
      download_url = ''https://example.org/42.csv''\<rparr>"

definition nursing_7 :: dataset where
  "nursing_7 =
     \<lparr>dataset_id = ''7'', name = ''Nursing Homes'',
      last_modified_json = Str ''2024-01-01T00:00:00'', download_url = ''https://example.org/7.csv''\<rparr>"

definition hospital_9 :: dataset where
  "hospital_9 =
     \<lparr>dataset_id = ''9'', name = ''Readmissions in hospitals'',
      last_modified_json = Str ''2024-03-05T10:20:30'', download_url = ''https://example.org/9.csv''\<rparr>"

definition sample_catalog :: "dataset list" where
  "sample_catalog = [hospital_42 (Some ''2024-01-01T00:00:00''), nursing_7, hospital_9]"

definition sample_table :: table where
  "sample_table = \<lparr>columns = [''Facility ID'', ''HospitalName''], rows = [[''1'', ''A'']]\<rparr>"

text \<open>
  A remote side where everything succeeds, one where the catalog answers with status 500,
  and one where the body of dataset 42 cannot be parsed, the request for dataset 9 fails
  and the file of dataset 11 cannot be written, while dataset 5 goes through. The body of
  a response is its URL, which tells the bodies apart. The pool takes the tasks in the
  order of submission, in \<open>failing_env_reversed\<close> in the opposite order.
\<close>

definition sample_env :: env where
  "sample_env =
     \<lparr>requests_get = (\<lambda>u. Inr \<lparr>status_code = 200, content = u\<rparr>),
      json_items = (\<lambda>b. Inr sample_catalog),
      read_csv = (\<lambda>b. Inr sample_table),
      to_csv_error = (\<lambda>p. None),
      pool_order = (\<lambda>tasks. tasks),
      completed_order = (\<lambda>outcomes. outcomes)\<rparr>"

definition catalog_down_env :: env where
  "catalog_down_env =
     sample_env\<lparr>requests_get :=
       (\<lambda>u. Inr \<lparr>status_code = (if u = API_URL then 500 else 200), content = u\<rparr>)\<rparr>"






definition world0 :: world where
  "world0 = \<lparr>metadata_file = None, files = [], events = []\<rparr>"

text \<open>The world that the first run on \<open>sample_env\<close> leaves, starting from nothing.\<close>

definition renamed_table :: table where
  "renamed_table = \<lparr>columns = [''facility_id'', ''hospital_name''], rows = [[''1'', ''A'']]\<rparr>"

definition after_first_run :: world where
  "after_first_run =
     \<lparr>metadata_file = Some [(''42'', ''2024-01-01 00:00:00''), (''9'', ''2024-03-05 10:20:30'')],
      files = [(''./datasets/42.csv'', renamed_table), (''./datasets/9.csv'', renamed_table)],
      events =
        [Get API_URL,
         Get ''https://example.org/42.csv'',
         Print (Downloading ''Hospitals - General Information''),
         Print (Saved ''Hospitals - General Information'' ''./datasets/42.csv''),
         Get ''https://example.org/9.csv'',
         Print (Downloading ''Readmissions in hospitals''),
         Print (Saved ''Readmissions in hospitals'' ''./datasets/9.csv''),
         Print Complete]\<rparr>"

definition singular_names :: "dataset list" where
  "singular_names =
     [\<lparr>dataset_id = ''1'', name = ''Hospital General Info'', last_modified_json = Absent,
       download_url = ''https://example.org/1.csv''\<rparr>,
      \<lparr>dataset_id = ''2'', name = ''Nursing Homes'', last_modified_json = Absent,
       download_url = ''https://example.org/2.csv''\<rparr>,
      \<lparr>dataset_id = ''3'', name = ''Hospital Readmissions'', last_modified_json = Absent,
       download_url = ''https://example.org/3.csv''\<rparr>]"

section \<open>Parsing timestamps\<close>

text \<open>
  Every valid timestamp written in the catalog's format is parsed back to itself, so
  \<open>strptime\<close> succeeds on every \<open>last_modified\<close> of that form.
\<close>

lemma of_char_digit_char: "n < 10 \<Longrightarrow> (of_char (digit_char n) :: nat) = 48 + n"
  by (simp add: digit_char_def)

lemma digit_char_is_digit: "n < 10 \<Longrightarrow> is_digit (digit_char n)"
  by (simp add: is_digit_def of_char_digit_char)

lemma digit_val_digit_char: "n < 10 \<Longrightarrow> digit_val (digit_char n) = n"
  by (simp add: digit_val_def of_char_digit_char)

lemma number_pad2: "n < 100 \<Longrightarrow> number 2 (pad2 n) = Some n"
  by (simp add: number_def pad2_def digits_val_def digit_char_is_digit digit_val_digit_char)

lemma div_10_10: "(n::nat) div 10 div 10 = n div 100"
  using div_mult2_eq [of n 10 10] by simp

lemma div_100_10: "(n::nat) div 100 div 10 = n div 1000"
  using div_mult2_eq [of n 100 10] by simp

lemma tens_digit: "(n::nat) div 10 = 10 * (n div 100) + n div 10 mod 10"
  using mult_div_mod_eq [of 10 "n div 10"] by (simp only: div_10_10)

lemma hundreds_digit: "(n::nat) div 100 = 10 * (n div 1000) + n div 100 mod 10"
  using mult_div_mod_eq [of 10 "n div 100"] by (simp only: div_100_10)

lemma four_digits:
  "1000 * (n div 1000) + 100 * (n div 100 mod 10) + 10 * (n div 10 mod 10) + n mod 10 = (n::nat)"
proof -
  have "n = 10 * (n div 10) + n mod 10" by simp
  with tens_digit [of n] hundreds_digit [of n] show ?thesis by linarith
qed

lemma year_field_pad4: "n < 10000 \<Longrightarrow> year_field (pad4 n) = Some n"
  by (simp add: year_field_def number_def pad4_def digits_val_def digit_char_is_digit
      digit_val_digit_char four_digits)

lemma split_on_append:
  assumes "\<forall>c \<in> set a. \<not> sep c" and "sep x"
  shows "split_on sep (a @ x # rest) = Some (a, rest)"
  using assms by (simp add: split_on_def dropWhile_append3 takeWhile_append1 takeWhile_append2
      dropWhile_append2)

lemma digit_not_sep:
  assumes "is_digit c"
  shows "c \<noteq> CHR ''-''" "c \<noteq> CHR '':''" "c \<noteq> CHR ''T''" "c \<noteq> CHR ''t''" "c \<noteq> CHR '' ''"
  using assms by (auto simp: is_digit_def)

lemma pad2_digits: "c \<in> set (pad2 n) \<Longrightarrow> is_digit c"
  by (auto simp: pad2_def digit_char_is_digit)

lemma pad4_digits: "c \<in> set (pad4 n) \<Longrightarrow> is_digit c"
  by (auto simp: pad4_def digit_char_is_digit)

lemma month_field_pad2: "1 \<le> n \<Longrightarrow> n \<le> 12 \<Longrightarrow> month_field (pad2 n) = Some n"
  by (simp add: month_field_def number_pad2)

lemma day_field_pad2:
  assumes "1 \<le> n" and "n \<le> 31"
  shows "day_field (pad2 n) = Some n"
proof -
  define a where "a = digit_char (n div 10 mod 10)"
  define b where "b = digit_char (n mod 10)"
  have p: "pad2 n = [a, b]"
    by (simp add: pad2_def a_def b_def)
  have "is_digit a"
    by (simp add: a_def digit_char_is_digit)
  then have "a \<noteq> CHR '' ''"
    by (rule digit_not_sep)
  moreover from assms have "number 2 [a, b] = Some n"
    using number_pad2 [of n] by (simp add: p)
  ultimately show ?thesis
    using assms by (simp add: day_field_def p)
qed

lemma bounded_field_pad2: "n \<le> b \<Longrightarrow> b < 100 \<Longrightarrow> bounded_field b (pad2 n) = Some n"
  by (simp add: bounded_field_def number_pad2)

lemma days_in_month_le: "days_in_month y m \<le> 31"
  by (simp add: days_in_month_def)

lemma match_format_isoformat:
  assumes "valid_datetime t"
  shows "match_format (isoformat t) = Some t"
proof -
  from assms have y: "year t < 10000" and m: "1 \<le> month t" "month t \<le> 12"
    and d: "1 \<le> day t" "day t \<le> 31" and h: "hour t \<le> 23" and mi: "minute t \<le> 59"
    and se: "second t \<le> 61"
    using days_in_month_le [of "year t" "month t"] by (auto simp: valid_datetime_def)
  have 1: "split_on (\<lambda>c. c = CHR ''-'')
             (pad4 (year t) @ CHR ''-'' # r) = Some (pad4 (year t), r)" for r
    by (rule split_on_append) (auto dest: pad4_digits digit_not_sep)
  have 2: "split_on (\<lambda>c. c = CHR ''-'') (pad2 n @ CHR ''-'' # r) = Some (pad2 n, r)" for n r
    by (rule split_on_append) (auto dest: pad2_digits digit_not_sep)
  have 3: "split_on (\<lambda>c. c = CHR ''T'' \<or> c = CHR ''t'') (pad2 n @ CHR ''T'' # r)
             = Some (pad2 n, r)" for n r
    by (rule split_on_append) (auto dest: pad2_digits digit_not_sep)
  have 4: "split_on (\<lambda>c. c = CHR '':'') (pad2 n @ CHR '':'' # r) = Some (pad2 n, r)" for n r
    by (rule split_on_append) (auto dest: pad2_digits digit_not_sep)
  show ?thesis
    unfolding match_format_def isoformat_def
    by (simp add: 1 2 3 4 year_field_pad4 [OF y] month_field_pad2 [OF m] day_field_pad2 [OF d]
        bounded_field_pad2 h mi se)
qed

lemma strptime_isoformat: "valid_datetime t \<Longrightarrow> strptime (isoformat t) = Inr t"
  by (simp add: strptime_def match_format_isoformat) (simp add: valid_datetime_def)

section \<open>The staleness check\<close>

lemma last_modified_None:
  "last_modified d = None \<longleftrightarrow> last_modified_json d = Absent \<or> last_modified_json d = Null"
  by (cases "last_modified_json d") (simp_all add: last_modified_def)

lemma map_of_in_memory: "map_of (in_memory marks) k = map_option Stamp (map_of marks k)"
  by (induction marks) (auto simp: in_memory_def)

lemma datetime_gt_irrefl: "\<not> datetime_gt t t"
  by (simp add: datetime_gt_def)

lemma datetime_gt_iff_not_le: "datetime_gt t w \<longleftrightarrow> \<not> dt_tuple t \<le> dt_tuple w"
  by (simp add: datetime_gt_def not_le)

text \<open>
  C1. For a dataset whose \<open>last_modified\<close> parses to the timestamp \<open>t\<close> and a dictionary
  of timestamps, the staleness check returns true exactly when the dataset's id is not a
  key, or when \<open>t\<close> is strictly later than the watermark stored under the id; it returns
  false when \<open>t\<close> is equal to the watermark or earlier.
\<close>

theorem is_stale_iff:
  assumes "last_modified d = Some s" and "strptime s = Inr t"
  shows "file_modified_since_last_run d (in_memory marks) =
           Inr (map_of marks (dataset_id d) = None \<or>
                (\<exists>w. map_of marks (dataset_id d) = Some w \<and> dt_tuple w < dt_tuple t))
         \<and> (\<forall>w. map_of marks (dataset_id d) = Some w \<and> dt_tuple t \<le> dt_tuple w \<longrightarrow>
               file_modified_since_last_run d (in_memory marks) = Inr False)"
proof (cases "map_of marks (dataset_id d)")
  case None
  then show ?thesis
    by (simp add: file_modified_since_last_run_def map_of_in_memory)
next
  case (Some w)
  with assms have "file_modified_since_last_run d (in_memory marks) = Inr (datetime_gt t w)"
    by (simp add: file_modified_since_last_run_def map_of_in_memory)
  with Some show ?thesis
    by (auto simp: datetime_gt_def)
qed

theorem is_stale_iff_witness:
  "file_modified_since_last_run (hospital_42 (Some ''2024-01-02T00:00:00''))
     (in_memory [(''42'', midnight 2024 1 1)]) = Inr True
   \<and> file_modified_since_last_run (hospital_42 (Some ''2023-12-31T00:00:00''))
     (in_memory [(''42'', midnight 2024 1 1)]) = Inr False
   \<and> file_modified_since_last_run (hospital_42 (Some ''2024-01-01T00:00:00''))
     (in_memory [(''42'', midnight 2024 1 1)]) = Inr False
   \<and> file_modified_since_last_run (hospital_42 (Some ''2024-01-02T00:00:00''))
     (in_memory []) = Inr True"
proof -
  have later: "strptime ''2024-01-02T00:00:00'' = Inr (midnight 2024 1 2)"
    and earlier: "strptime ''2023-12-31T00:00:00'' = Inr (midnight 2023 12 31)"
    and equal: "strptime ''2024-01-01T00:00:00'' = Inr (midnight 2024 1 1)"
    by code_simp+
  have lm: "last_modified (hospital_42 (Some s)) = Some s" for s
    by (simp add: hospital_42_def last_modified_def)
  have key: "dataset_id (hospital_42 m) = ''42''" for m
    by (simp add: hospital_42_def)
  have a: "dt_tuple (midnight 2024 1 1) < dt_tuple (midnight 2024 1 2)"
    and b: "dt_tuple (midnight 2023 12 31) \<le> dt_tuple (midnight 2024 1 1)"
    by (simp_all add: dt_tuple_def midnight_def less_eq_prod_def less_prod_def)
  from is_stale_iff [OF lm later, of "[(''42'', midnight 2024 1 1)]"] a
  have 1: "file_modified_since_last_run (hospital_42 (Some ''2024-01-02T00:00:00''))
     (in_memory [(''42'', midnight 2024 1 1)]) = Inr True"
    by (simp add: key)
  from is_stale_iff [OF lm earlier, of "[(''42'', midnight 2024 1 1)]"] b
  have 2: "file_modified_since_last_run (hospital_42 (Some ''2023-12-31T00:00:00''))
     (in_memory [(''42'', midnight 2024 1 1)]) = Inr False"
    by (simp add: key)
  from is_stale_iff [OF lm equal, of "[(''42'', midnight 2024 1 1)]"]
  have 3: "file_modified_since_last_run (hospital_42 (Some ''2024-01-01T00:00:00''))
     (in_memory [(''42'', midnight 2024 1 1)]) = Inr False"
    by (simp add: key)
  from is_stale_iff [OF lm later, of "[]"]
  have 4: "file_modified_since_last_run (hospital_42 (Some ''2024-01-02T00:00:00''))
     (in_memory []) = Inr True"
    by simp
  from 1 2 3 4 show ?thesis by simp
qed

text \<open>
  C10. When the dataset's id is not a key of \<open>last_run\<close> the staleness check returns
  true whatever \<open>last_modified\<close> is, missing or malformed included: the value is parsed
  only when the id is a key, and only there a missing value (\<open>TypeError\<close>) or a
  malformed one (the error of \<open>strptime\<close>) makes the check fail.
\<close>

theorem absent_id_never_parses:
  "(map_of last_run (dataset_id d) = None \<longrightarrow>
      file_modified_since_last_run d last_run = Inr True)
   \<and> (map_of last_run (dataset_id d) \<noteq> None \<and> last_modified d = None \<longrightarrow>
      file_modified_since_last_run d last_run = Inl TypeError)
   \<and> (\<forall>s e. map_of last_run (dataset_id d) \<noteq> None \<and> last_modified d = Some s \<and>
        strptime s = Inl e \<longrightarrow>
      file_modified_since_last_run d last_run = Inl e)"
  by (auto simp: file_modified_since_last_run_def)

theorem absent_id_never_parses_witness:
  "file_modified_since_last_run (hospital_42 None) [] = Inr True
   \<and> file_modified_since_last_run (hospital_42 (Some ''yesterday'')) [(''7'', Text ''x'')] = Inr True
   \<and> file_modified_since_last_run (hospital_42 None) [(''42'', Stamp (midnight 2024 1 1))]
       = Inl TypeError
   \<and> file_modified_since_last_run (hospital_42 (Some ''yesterday''))
       [(''42'', Stamp (midnight 2024 1 1))] = Inl ValueError"
proof -
  have bad: "strptime ''yesterday'' = Inl ValueError"
    by code_simp
  have key: "dataset_id (hospital_42 m) = ''42''" for m
    by (simp add: hospital_42_def)
  have lm: "last_modified (hospital_42 m) = m" for m
    by (cases m) (simp_all add: hospital_42_def last_modified_def)
  from absent_id_never_parses [of "[]" "hospital_42 None"]
  have 1: "file_modified_since_last_run (hospital_42 None) [] = Inr True"
    by simp
  from absent_id_never_parses [of "[(''7'', Text ''x'')]" "hospital_42 (Some ''yesterday'')"]
  have 2: "file_modified_since_last_run (hospital_42 (Some ''yesterday'')) [(''7'', Text ''x'')]
             = Inr True"
    by (simp add: key)
  from absent_id_never_parses [of "[(''42'', Stamp (midnight 2024 1 1))]" "hospital_42 None"]
  have 3: "file_modified_since_last_run (hospital_42 None) [(''42'', Stamp (midnight 2024 1 1))]
             = Inl TypeError"
    by (simp add: key lm)
  from absent_id_never_parses
    [of "[(''42'', Stamp (midnight 2024 1 1))]" "hospital_42 (Some ''yesterday'')"] bad
  have 4: "file_modified_since_last_run (hospital_42 (Some ''yesterday''))
             [(''42'', Stamp (midnight 2024 1 1))] = Inl ValueError"
    by (simp add: key lm)
  from 1 2 3 4 show ?thesis by simp
qed

section \<open>The metadata file across runs\<close>

lemma first_run: "main sample_env world0 = (Inr (), after_first_run)"
  by code_simp

lemma second_run:
  "main sample_env after_first_run =
     (Inl TypeError, after_first_run\<lparr>events := events after_first_run @ [Get API_URL]\<rparr>)"
  by code_simp

text \<open>
  Whatever the metadata file holds, the staleness check on the loaded dictionary never
  answers \<open>False\<close>: the skip branch of a task is not reached through the file.
\<close>

lemma map_of_json_load: "map_of (json_load (Some doc)) k = map_option Text (map_of doc k)"
  by (induction doc) (auto simp: json_load_def)

lemma loaded_metadata_never_skips:
  "file_modified_since_last_run d (json_load stored) \<noteq> Inr False"
proof (cases stored)
  case None
  then show ?thesis
    by (simp add: file_modified_since_last_run_def json_load_def)
next
  case (Some doc)
  then show ?thesis
    by (auto simp: file_modified_since_last_run_def map_of_json_load
        split: option.splits sum.splits)
qed

text \<open>
  C2. Two runs in succession against an unchanged remote side. The first run downloads
  the two hospital datasets and writes their watermarks to the metadata file. The second
  run reads them back as strings; each task then raises \<open>TypeError\<close> in the staleness
  check, so no dataset is skipped (no message, no download either) and the run ends with
  the exception.
\<close>

theorem second_run_raises:
  "fst (main sample_env world0) = Inr ()
   \<and> metadata_file (snd (main sample_env world0)) =
       Some [(''42'', ''2024-01-01 00:00:00''), (''9'', ''2024-03-05 10:20:30'')]
   \<and> fst (main sample_env (snd (main sample_env world0))) = Inl TypeError
   \<and> events (snd (main sample_env (snd (main sample_env world0)))) =
       events (snd (main sample_env world0)) @ [Get API_URL]"
  by (simp add: first_run second_run) (simp add: after_first_run_def)

text \<open>
  C3. Dumping the dictionary and loading it back does not give watermarks on which the
  staleness check answers as before: the datetime stored for dataset 42 is written as the
  string \<open>2024-01-01 00:00:00\<close> and comes back as that string, and where the check
  answered \<open>True\<close> on the dictionary in memory it raises \<open>TypeError\<close> on the loaded
  one. The string is not in the format the check parses \<open>last_modified\<close> with either.
\<close>

theorem reloaded_watermark_raises:
  "file_modified_since_last_run (hospital_42 (Some ''2024-01-02T00:00:00''))
     (in_memory [(''42'', midnight 2024 1 1)]) = Inr True
   \<and> json_dump (in_memory [(''42'', midnight 2024 1 1)]) = [(''42'', ''2024-01-01 00:00:00'')]
   \<and> file_modified_since_last_run (hospital_42 (Some ''2024-01-02T00:00:00''))
       (json_load (Some (json_dump (in_memory [(''42'', midnight 2024 1 1)])))) = Inl TypeError
   \<and> strptime ''2024-01-01 00:00:00'' = Inl ValueError"
  by code_simp

section \<open>The theme filter\<close>

lemma starts_with_iff: "starts_with p s \<longleftrightarrow> (\<exists>q. s = p @ q)"
  by (induction p arbitrary: s) (auto split: list.splits)

lemma contains_iff: "contains sub s \<longleftrightarrow> (\<exists>p q. s = p @ sub @ q)"
proof (induction s)
  case Nil
  then show ?case by auto
next
  case (Cons c cs)
  show ?case
  proof
    assume "contains sub (c # cs)"
    then consider "starts_with sub (c # cs)" | "contains sub cs" by auto
    then show "\<exists>p q. c # cs = p @ sub @ q"
    proof cases
      case 1
      then obtain q where "c # cs = sub @ q" by (auto simp: starts_with_iff)
      then have "c # cs = [] @ sub @ q" by simp
      then show ?thesis by blast
    next
      case 2
      with Cons.IH obtain p q where "cs = p @ sub @ q" by auto
      then have "c # cs = (c # p) @ sub @ q" by simp
      then show ?thesis by blast
    qed
  next
    assume "\<exists>p q. c # cs = p @ sub @ q"
    then obtain p q where pq: "c # cs = p @ sub @ q" by auto
    show "contains sub (c # cs)"
    proof (cases p)
      case Nil
      with pq have "starts_with sub (c # cs)" by (auto simp: starts_with_iff)
      then show ?thesis by simp
    next
      case (Cons a p')
      with pq have "cs = p' @ sub @ q" by simp
      with Cons.IH have "contains sub cs" by blast
      then show ?thesis by simp
    qed
  qed
qed

text \<open>
  C6. For every list of datasets and every theme the filter returns the datasets whose
  lowercased name has the lowercased theme as a substring, and no others, in the order of
  the input.
\<close>

theorem filter_by_theme_exact:
  "filter_by_theme theme datasets =
     filter (\<lambda>d. \<exists>p q. lower (name d) = p @ lower theme @ q) datasets
   \<and> subseq (filter_by_theme theme datasets) datasets"
  by (simp add: filter_by_theme_def contains_iff)

text \<open>
  On the sample catalog the theme \<open>Hospitals\<close> keeps the first and the third dataset. A
  name that has only the singular \<open>Hospital\<close> does not contain the theme.
\<close>

lemma filter_sample_catalog:
  "map dataset_id (filter_by_theme THEME sample_catalog) = [''42'', ''9'']"
  by code_simp

lemma filter_singular_names: "filter_by_theme ''Hospitals'' singular_names = []"
  by code_simp

section \<open>A failed catalog request\<close>

text \<open>
  C8 as the notebook has it. When the catalog request returns a status other than 200,
  \<open>main\<close> prints the failure and returns: no dataset request is sent, no dataset file
  and no metadata file is written, and since \<open>main\<close> returns normally the process ends
  with status 0.
\<close>

theorem catalog_failure_returns:
  assumes "requests_get E API_URL = Inr resp" and "status_code resp \<noteq> 200"
  shows "main E w =
           (Inr (), w\<lparr>events := events w @ [Get API_URL, Print (FailedCatalog (status_code resp))]\<rparr>)
         \<and> files (snd (main E w)) = files w
         \<and> metadata_file (snd (main E w)) = metadata_file w
         \<and> download_calls (snd (main E w)) = download_calls w
         \<and> exit_status (fst (main E w)) = 0"
  using assms by (simp add: main_def emit_def exit_status_def download_calls_def Let_def)

theorem catalog_failure_returns_witness:
  "main catalog_down_env world0 =
     (Inr (), world0\<lparr>events := [Get API_URL, Print (FailedCatalog 500)]\<rparr>)"
proof -
  have a: "requests_get catalog_down_env API_URL = Inr \<lparr>status_code = 500, content = API_URL\<rparr>"
    by (simp add: catalog_down_env_def sample_env_def)
  have b: "status_code \<lparr>status_code = 500, content = API_URL\<rparr> \<noteq> 200" by simp
  from catalog_failure_returns [OF a b, of world0] show ?thesis
    by (simp add: world0_def)
qed

text \<open>
  C8 as stated fails: with the catalog answering 500 the exit status is 0, not non-zero.
\<close>

theorem catalog_failure_exit_zero:
  "requests_get catalog_down_env API_URL = Inr \<lparr>status_code = 500, content = API_URL\<rparr>
   \<and> \<not> exit_status (fst (main catalog_down_env world0)) \<noteq> 0"
  by code_simp

section \<open>Exceptions in a task\<close>
























section \<open>Column names\<close>

text \<open>
  C4. An underscore is a word character for \<open>\W\<close>, so it is not part of the run that is
  replaced: an underscore next to punctuation, or two underscores in the input, leave two
  separators in a row.
\<close>

theorem underscore_next_to_punctuation:
  "to_snake_case ''Facility_-ID'' = ''facility__id''
   \<and> to_snake_case ''rate__pct'' = ''rate__pct''"
  by code_simp

lemma underscore_class [simp]:
  "\<not> is_upper CHR ''_''" "\<not> is_lower CHR ''_''" "\<not> is_digit CHR ''_''" "is_word CHR ''_''"
  by (simp_all add: is_upper_def is_lower_def is_digit_def is_word_def)

lemma canonical_not_upper: "canonical_char c \<Longrightarrow> \<not> is_upper c"
  by (auto simp: canonical_char_def is_upper_def is_lower_def is_digit_def)

lemma canonical_is_word: "canonical_char c \<Longrightarrow> is_word c"
  by (auto simp: canonical_char_def is_word_def)

lemma lower_char_canonical: "is_word c \<Longrightarrow> canonical_char (lower_char c)"
  by (auto simp: canonical_char_def is_word_def lower_char_def is_upper_def is_lower_def
      is_digit_def)

lemma lower_char_underscore: "lower_char c = CHR ''_'' \<longleftrightarrow> c = CHR ''_''"
proof
  assume a: "lower_char c = CHR ''_''"
  show "c = CHR ''_''"
  proof (rule ccontr)
    assume n: "c \<noteq> CHR ''_''"
    with a have up: "is_upper c" by (auto simp: lower_char_def split: if_splits)
    then have "is_lower (lower_char c)"
      by (auto simp: lower_char_def is_upper_def is_lower_def)
    with a show False by simp
  qed
next
  assume "c = CHR ''_''"
  then show "lower_char c = CHR ''_''" by (simp add: lower_char_def)
qed

lemma nonword_sub_words: "c \<in> set (nonword_sub s) \<Longrightarrow> is_word c"
  by (induction s rule: nonword_sub.induct) (auto split: if_splits)

lemma strip_underscores_subset: "set (strip_underscores s) \<subseteq> set s"
  by (auto simp: strip_underscores_def dest!: set_dropWhileD)

lemma last_dropWhile_keep: "dropWhile P xs \<noteq> [] \<Longrightarrow> last (dropWhile P xs) = last xs"
proof -
  assume a: "dropWhile P xs \<noteq> []"
  have "last xs = last (takeWhile P xs @ dropWhile P xs)" by simp
  also have "\<dots> = last (dropWhile P xs)" using a by (rule last_appendR)
  finally show ?thesis by (rule sym)
qed

lemma dropWhile_twice_edges:
  assumes "dropWhile P (rev (dropWhile P s)) \<noteq> []"
  shows "\<not> P (hd (dropWhile P (rev (dropWhile P s))))"
    and "\<not> P (last (dropWhile P (rev (dropWhile P s))))"
proof -
  define y where "y = dropWhile P s"
  define z where "z = dropWhile P (rev y)"
  from assms have z: "z \<noteq> []" unfolding z_def y_def .
  have y: "y \<noteq> []"
  proof
    assume "y = []"
    then have "z = []" by (simp add: z_def)
    with z show False by contradiction
  qed
  have "\<not> P (hd z)" unfolding z_def using z [unfolded z_def] by (rule hd_dropWhile)
  then show "\<not> P (hd (dropWhile P (rev (dropWhile P s))))"
    unfolding z_def y_def .
  have "last z = last (rev y)" unfolding z_def using z [unfolded z_def] by (rule last_dropWhile_keep)
  also have "\<dots> = hd y" by (rule last_rev)
  finally have lz: "last z = hd y" .
  have "\<not> P (hd y)" unfolding y_def using y [unfolded y_def] by (rule hd_dropWhile)
  with lz have "\<not> P (last z)" by (rule ssubst)
  then show "\<not> P (last (dropWhile P (rev (dropWhile P s))))"
    unfolding z_def y_def .
qed

lemma strip_underscores_edges:
  assumes "strip_underscores s \<noteq> []"
  shows "hd (strip_underscores s) \<noteq> CHR ''_'' \<and> last (strip_underscores s) \<noteq> CHR ''_''"
proof -
  define z where "z = dropWhile (\<lambda>x. x = CHR ''_'') (rev (dropWhile (\<lambda>x. x = CHR ''_'') s))"
  have x: "strip_underscores s = rev z" by (simp add: strip_underscores_def z_def)
  with assms have z: "z \<noteq> []" by simp
  from z have "hd z \<noteq> CHR ''_''" and "last z \<noteq> CHR ''_''"
    unfolding z_def by (rule dropWhile_twice_edges)+
  with z x show ?thesis by (simp add: hd_rev last_rev)
qed

lemma strip_underscores_fixed:
  assumes "s = [] \<or> (hd s \<noteq> CHR ''_'' \<and> last s \<noteq> CHR ''_'')"
  shows "strip_underscores s = s"
proof (cases "s = []")
  case True
  then show ?thesis by (simp add: strip_underscores_def)
next
  case False
  with assms have h: "hd s \<noteq> CHR ''_''" and l: "last s \<noteq> CHR ''_''" by auto
  from h have 1: "dropWhile (\<lambda>x. x = CHR ''_'') s = s"
    by (simp add: dropWhile_eq_self_iff)
  from l False have 2: "dropWhile (\<lambda>x. x = CHR ''_'') (rev s) = rev s"
    by (simp add: dropWhile_eq_self_iff hd_rev)
  from 1 2 show ?thesis by (simp add: strip_underscores_def)
qed

lemma camel_sub_fixed: "\<forall>c \<in> set s. \<not> is_upper c \<Longrightarrow> camel_sub s = s"
  by (induction s rule: camel_sub.induct) auto

lemma nonword_sub_fixed: "\<forall>c \<in> set s. is_word c \<Longrightarrow> nonword_sub s = s"
  by (induction s) auto

lemma lower_fixed: "\<forall>c \<in> set s. \<not> is_upper c \<Longrightarrow> lower s = s"
  by (induction s) (auto simp: lower_def lower_char_def)

text \<open>
  What \<open>to_snake_case\<close> returns consists of lowercase letters, digits and underscores
  and neither starts nor ends with an underscore; on such a string it changes nothing.
\<close>

lemma to_snake_case_canonical: "c \<in> set (to_snake_case s) \<Longrightarrow> canonical_char c"
proof -
  assume "c \<in> set (to_snake_case s)"
  then obtain b where b: "b \<in> set (strip_underscores (nonword_sub (camel_sub s)))"
    and c: "c = lower_char b"
    by (auto simp: to_snake_case_def lower_def)
  from b have "b \<in> set (nonword_sub (camel_sub s))"
    using strip_underscores_subset by blast
  then have "is_word b" by (rule nonword_sub_words)
  with c show ?thesis by (simp add: lower_char_canonical)
qed

lemma to_snake_case_edges:
  "to_snake_case s = [] \<or>
   (hd (to_snake_case s) \<noteq> CHR ''_'' \<and> last (to_snake_case s) \<noteq> CHR ''_'')"
proof (cases "strip_underscores (nonword_sub (camel_sub s)) = []")
  case True
  then show ?thesis by (simp add: to_snake_case_def lower_def)
next
  case False
  from strip_underscores_edges [OF False] False show ?thesis
    by (simp add: to_snake_case_def lower_def hd_map last_map lower_char_underscore)
qed

lemma to_snake_case_fixed:
  assumes "\<forall>c \<in> set s. canonical_char c"
    and "s = [] \<or> (hd s \<noteq> CHR ''_'' \<and> last s \<noteq> CHR ''_'')"
  shows "to_snake_case s = s"
proof -
  from assms(1) have up: "\<forall>c \<in> set s. \<not> is_upper c" and wd: "\<forall>c \<in> set s. is_word c"
    by (auto dest: canonical_not_upper canonical_is_word)
  from up have "camel_sub s = s" by (rule camel_sub_fixed)
  moreover from wd have "nonword_sub s = s" by (rule nonword_sub_fixed)
  moreover from assms(2) have "strip_underscores s = s" by (rule strip_underscores_fixed)
  moreover from up have "lower s = s" by (rule lower_fixed)
  ultimately show ?thesis by (simp add: to_snake_case_def)
qed

lemma to_snake_case_twice: "to_snake_case (to_snake_case s) = to_snake_case s"
proof (rule to_snake_case_fixed)
  show "\<forall>c \<in> set (to_snake_case s). canonical_char c"
    by (auto dest: to_snake_case_canonical)
  show "to_snake_case s = [] \<or>
        (hd (to_snake_case s) \<noteq> CHR ''_'' \<and> last (to_snake_case s) \<noteq> CHR ''_'')"
    by (rule to_snake_case_edges)
qed

lemma spec_values:
  "to_snake_case ''HospitalName'' = ''hospital_name''"
  "to_snake_case ''Facility ID'' = ''facility_id''"
  "to_snake_case ''___Weird---Name!!'' = ''weird_name''"
  "to_snake_case '''' = ''''"
  by code_simp+

text \<open>
  C5. \<open>to_snake_case\<close> is a total function, and on every string of printable ASCII
  characters applying it twice gives what applying it once gives. The four values of the
  specification are as stated.
\<close>

theorem to_snake_case_idempotent:
  assumes "\<forall>c \<in> set s. printable_ascii c"
  shows "to_snake_case (to_snake_case s) = to_snake_case s
       \<and> to_snake_case ''HospitalName'' = ''hospital_name''
       \<and> to_snake_case ''Facility ID'' = ''facility_id''
       \<and> to_snake_case ''___Weird---Name!!'' = ''weird_name''
       \<and> to_snake_case '''' = ''''"
  by (simp add: to_snake_case_twice spec_values)

theorem to_snake_case_idempotent_witness:
  "list_all printable_ascii ''Total Hospital_Beds (2024)''
   \<and> to_snake_case ''Total Hospital_Beds (2024)'' = ''total_hospital_beds_2024''
   \<and> to_snake_case ''total_hospital_beds_2024'' = ''total_hospital_beds_2024''"
proof -
  have p: "\<forall>c \<in> set ''Total Hospital_Beds (2024)''. printable_ascii c"
    by (simp add: printable_ascii_def)
  have v: "to_snake_case ''Total Hospital_Beds (2024)'' = ''total_hospital_beds_2024''"
    by code_simp
  from to_snake_case_idempotent [OF p] v
  have "to_snake_case ''total_hospital_beds_2024'' = ''total_hospital_beds_2024''"
    by simp
  with p v show ?thesis by (simp add: list_all_iff)
qed

end
